theory Spec2Isabelle
  imports Main
begin

section \<open>Data model\<close>

text \<open>
  A row of the user table, with the columns the services read and write:
  \<^verbatim>\<open>role, username, hashed_password, fname, lname, email, address\<close>.
\<close>

record user =
  role :: string
  username :: string
  hashed_password :: string
  fname :: string
  lname :: string
  email :: string
  address :: string

text \<open>
  A thrown JavaScript error object: its \<^verbatim>\<open>name\<close>, its \<^verbatim>\<open>message\<close> and, for the
  errors of the persistence layer, its \<^verbatim>\<open>fields\<close> object (\<open>None\<close> when the property is
  undefined).
\<close>

datatype js_error =
  JsError (err_name: string) (err_message: string) (err_fields: "(string \<times> string) list option")

definition Error :: "string \<Rightarrow> js_error" where
  \<comment> \<open>\<^verbatim>\<open>new Error(msg)\<close>\<close>
  "Error msg = JsError ''Error'' msg None"

definition SequelizeUniqueConstraintError :: "(string \<times> string) list option \<Rightarrow> js_error" where
  "SequelizeUniqueConstraintError fs = JsError ''SequelizeUniqueConstraintError'' ''Validation error'' fs"

definition ReferenceError :: "string \<Rightarrow> js_error" where
  "ReferenceError msg = JsError ''ReferenceError'' msg None"

text \<open>
  The truthiness test \<^verbatim>\<open>error.fields && error.fields.k\<close>: the fields object exists, has
  the key, and the value stored there (a string) is not the empty string.
\<close>

definition has_field :: "(string \<times> string) list option \<Rightarrow> string \<Rightarrow> bool" where
  "has_field fs k =
     (case fs of
        None \<Rightarrow> False
      | Some kv \<Rightarrow> (case map_of kv k of None \<Rightarrow> False | Some v \<Rightarrow> v \<noteq> []))"

text \<open>JSON values sent with \<^verbatim>\<open>res.json\<close>, objects with their keys in order.\<close>

datatype json = JNum nat | JStr string | JObj "(string \<times> json) list"

text \<open>
  What a route handler does with a request: it answers with a JSON body, or its promise
  is rejected with an error nobody catches and no answer is sent.
\<close>

datatype reply = Responded json | Rejected js_error

section \<open>The credential store\<close>

text \<open>
  Modelled from the spec: the Credential Store (\<^verbatim>\<open>models/userModel.mjs\<close>, a Sequelize model,
  is not among the sources). The table is the list of its rows; a model instance is a row
  together with its position in the table. \<open>faults\<close> scripts the persistence faults: each
  call of the store takes the head of the list, and throws it when it is an error (an
  empty list means no fault). \<open>findOne\<close> returns the first row with the username;
  \<open>create\<close> enforces the uniqueness of username and email, naming the violated field, and
  appends the row; \<open>save\<close> writes the instance back at its position.
\<close>

record db =
  rows :: "user list"
  faults :: "js_error option list"

type_synonym user_instance = "nat \<times> user"

definition next_fault :: "db \<Rightarrow> js_error option \<times> db" where
  "next_fault s =
     (case faults s of
        [] \<Rightarrow> (None, s)
      | f # fs \<Rightarrow> (f, s\<lparr>faults := fs\<rparr>))"

definition find_row :: "string \<Rightarrow> user list \<Rightarrow> user_instance option" where
  "find_row uname us = find (\<lambda>(i, u). username u = uname) (enumerate 0 us)"

definition findOne :: "string \<Rightarrow> db \<Rightarrow> (js_error + user_instance option) \<times> db" where
  "findOne uname s =
     (case next_fault s of
        (Some e, s') \<Rightarrow> (Inl e, s')
      | (None, s') \<Rightarrow> (Inr (find_row uname (rows s')), s'))"

definition create :: "user \<Rightarrow> db \<Rightarrow> (js_error + user_instance) \<times> db" where
  "create u s =
     (case next_fault s of
        (Some e, s') \<Rightarrow> (Inl e, s')
      | (None, s') \<Rightarrow>
          if list_ex (\<lambda>r. username r = username u) (rows s')
          then (Inl (SequelizeUniqueConstraintError (Some [(''username'', username u)])), s')
          else if list_ex (\<lambda>r. email r = email u) (rows s')
          then (Inl (SequelizeUniqueConstraintError (Some [(''email'', email u)])), s')
          else (Inr (length (rows s'), u), s'\<lparr>rows := rows s' @ [u]\<rparr>))"

definition save :: "user_instance \<Rightarrow> db \<Rightarrow> (js_error + user_instance) \<times> db" where
  "save inst s =
     (case next_fault s of
        (Some e, s') \<Rightarrow> (Inl e, s')
      | (None, s') \<Rightarrow> (Inr inst, s'\<lparr>rows := (rows s')[fst inst := snd inst]\<rparr>))"

section \<open>services/userService.mjs\<close>

text \<open>
  The services thread the store through their calls. \<^verbatim>\<open>hashPassword\<close> and
  \<^verbatim>\<open>comparePasswords\<close> (\<^verbatim>\<open>utils/\<close>, not among the sources) are parameters; each
  may throw. A service returns \<open>Inl\<close> of the error it throws, or \<open>Inr\<close> of its value,
  where \<open>None\<close> is the JavaScript value \<^verbatim>\<open>false\<close>.
\<close>

definition loginUser ::
  "(string \<Rightarrow> string \<Rightarrow> js_error + bool) \<Rightarrow> string \<Rightarrow> string \<Rightarrow> db
     \<Rightarrow> (js_error + user_instance option) \<times> db" where
  "loginUser comparePasswords uname password s =
     (case findOne uname s of
        (Inl error, s') \<Rightarrow> (Inl (Error ''Error logging in''), s')
      | (Inr None, s') \<Rightarrow> (Inr None, s')
      | (Inr (Some usr), s') \<Rightarrow>
          (case comparePasswords (hashed_password (snd usr)) password of
             Inl error \<Rightarrow> (Inl (Error ''Error logging in''), s')
           | Inr isMatch \<Rightarrow> if isMatch then (Inr (Some usr), s') else (Inr None, s')))"

definition registerUser_catch :: "js_error \<Rightarrow> js_error" where
  \<comment> \<open>the \<^verbatim>\<open>catch\<close> block of \<^verbatim>\<open>registerUser\<close>: the error it throws for the one it caught\<close>
  "registerUser_catch error =
     (if err_name error = ''SequelizeUniqueConstraintError'' then
        (if has_field (err_fields error) ''username'' then Error ''Username already exists''
         else if has_field (err_fields error) ''email'' then Error ''Email already exists''
         else Error ''Username or email already exists'')
      else Error ''Error registering user'')"

definition registerUser ::
  "(string \<Rightarrow> js_error + string) \<Rightarrow> string \<Rightarrow> string \<Rightarrow> string \<Rightarrow> string \<Rightarrow> string \<Rightarrow> string
     \<Rightarrow> db \<Rightarrow> (js_error + unit) \<times> db" where
  "registerUser hashPassword uname password firstname lastname mail addr s =
     (case hashPassword password of
        Inl error \<Rightarrow> (Inl (registerUser_catch error), s)
      | Inr hashedPassword \<Rightarrow>
          (case create \<lparr>role = ''user'', username = uname, hashed_password = hashedPassword,
                        fname = firstname, lname = lastname, email = mail, address = addr\<rparr> s of
             (Inl error, s') \<Rightarrow> (Inl (registerUser_catch error), s')
           | (Inr _, s') \<Rightarrow> (Inr (), s')))"

definition updateUserProfile ::
  "string \<Rightarrow> string \<Rightarrow> string \<Rightarrow> string \<Rightarrow> db \<Rightarrow> (js_error + user_instance option) \<times> db" where
  "updateUserProfile uname firstname lastname addr s =
     (case findOne uname s of
        (Inl error, s') \<Rightarrow> (Inl (Error ''Error updating profile''), s')
      | (Inr None, s') \<Rightarrow> (Inr None, s')
      | (Inr (Some usr), s') \<Rightarrow>
          (case save (fst usr, (snd usr)\<lparr>fname := firstname, lname := lastname, address := addr\<rparr>) s' of
             (Inl error, s'') \<Rightarrow> (Inl (Error ''Error updating profile''), s'')
           | (Inr saved, s'') \<Rightarrow> (Inr (Some saved), s'')))"

section \<open>routes/user.mjs\<close>

text \<open>
  Loading the module binds \<^verbatim>\<open>secretKey\<close> to \<^verbatim>\<open>process.env.SECRET_KEY\<close>, which is
  undefined (\<open>None\<close>) when the variable is not set; no statement of the module body looks
  at the value.
\<close>

record routes_module =
  secretKey :: "string option"

definition load_routes :: "(string \<rightharpoonup> string) \<Rightarrow> js_error + routes_module" where
  "load_routes env = Inr \<lparr>secretKey = env ''SECRET_KEY''\<rparr>"

definition userData :: "user \<Rightarrow> (string \<times> json) list" where
  \<comment> \<open>the object literal both handlers build from the user\<close>
  "userData u =
     [(''role'', JStr (role u)), (''username'', JStr (username u)), (''fname'', JStr (fname u)),
      (''lname'', JStr (lname u)), (''email'', JStr (email u)), (''address'', JStr (address u))]"

definition status_error :: "nat \<Rightarrow> string \<Rightarrow> json" where
  "status_error st msg = JObj [(''status'', JNum st), (''error'', JStr msg)]"

definition status_msg :: "nat \<Rightarrow> string \<Rightarrow> json" where
  "status_msg st msg = JObj [(''status'', JNum st), (''msg'', JStr msg)]"

text \<open>
  The handlers take what the request boundary gives them: whether the validation of the
  request found no error (\<open>valid\<close>; the schemas are not among the sources), the fields of
  the body, and \<^verbatim>\<open>jwt.sign\<close> of the jsonwebtoken library as the parameter \<open>sign\<close>, which
  may throw. In \<^verbatim>\<open>/login\<close>, \<^verbatim>\<open>user.role\<close> of the value \<^verbatim>\<open>false\<close> is undefined, so
  \<^verbatim>\<open>isValid\<close> is false there.
\<close>

definition login_route ::
  "((string \<times> json) list \<Rightarrow> string option \<Rightarrow> js_error + string)
     \<Rightarrow> (string \<Rightarrow> string \<Rightarrow> js_error + bool) \<Rightarrow> string option
     \<Rightarrow> bool \<Rightarrow> string \<Rightarrow> string \<Rightarrow> db \<Rightarrow> reply \<times> db" where
  "login_route sign comparePasswords secret valid uname password s =
     (if \<not> valid then (Responded (status_error 400 ''Validation failed. Please check your inputs''), s)
      else
        (case loginUser comparePasswords uname password s of
           (Inl error, s') \<Rightarrow> (Responded (status_error 500 ''Internal server error''), s')
         | (Inr None, s') \<Rightarrow> (Responded (status_error 401 ''Invalid username or password''), s')
         | (Inr (Some usr), s') \<Rightarrow>
             if role (snd usr) = ''admin'' \<or> role (snd usr) = ''user'' then
               (case sign (userData (snd usr)) secret of
                  Inl error \<Rightarrow> (Responded (status_error 500 ''Internal server error''), s')
                | Inr token \<Rightarrow>
                    (Responded (JObj [(''status'', JNum 200), (''token'', JStr token),
                                      (''user'', JObj (userData (snd usr)))]), s'))
             else (Responded (status_error 401 ''Invalid username or password''), s')))"

definition register_route ::
  "(string \<Rightarrow> js_error + string) \<Rightarrow> bool
     \<Rightarrow> string \<Rightarrow> string \<Rightarrow> string \<Rightarrow> string \<Rightarrow> string \<Rightarrow> string \<Rightarrow> db \<Rightarrow> reply \<times> db" where
  "register_route hashPassword valid firstname lastname mail addr uname confirmPassword s =
     (if \<not> valid then (Responded (status_error 400 ''Validation failed. Please check your inputs''), s)
      else
        (case registerUser hashPassword uname confirmPassword firstname lastname mail addr s of
           (Inr _, s') \<Rightarrow> (Responded (status_msg 201 ''Account created successfully''), s')
         | (Inl error, s') \<Rightarrow>
             if err_message error = ''Username already exists''
                \<or> err_message error = ''Email already exists''
                \<or> err_message error = ''Email or username already exists''
             then (Responded (status_error 401 (err_message error)), s')
             else (Responded (status_error 500 ''Internal server error''), s')))"

text \<open>
  The \<^verbatim>\<open>catch\<close> block of \<^verbatim>\<open>/updateProfile\<close> reads a variable \<^verbatim>\<open>errorMessage\<close> that
  is not declared in its scope: evaluating it throws a ReferenceError out of the handler.
\<close>

definition updateProfile_route ::
  "((string \<times> json) list \<Rightarrow> string option \<Rightarrow> js_error + string) \<Rightarrow> string option
     \<Rightarrow> bool \<Rightarrow> string \<Rightarrow> string \<Rightarrow> string \<Rightarrow> string \<Rightarrow> db \<Rightarrow> reply \<times> db" where
  "updateProfile_route sign secret valid uname firstname lastname addr s =
     (if \<not> valid then (Responded (status_error 400 ''Validation failed. Please check your inputs''), s)
      else
        (case updateUserProfile uname firstname lastname addr s of
           (Inl error, s') \<Rightarrow> (Rejected (ReferenceError ''errorMessage is not defined''), s')
         | (Inr None, s') \<Rightarrow> (Responded (status_msg 400 ''Profile update failed''), s')
         | (Inr (Some usr), s') \<Rightarrow>
             (case sign (userData (snd usr)) secret of
                Inl error \<Rightarrow> (Rejected (ReferenceError ''errorMessage is not defined''), s')
              | Inr token \<Rightarrow>
                  (Responded (JObj [(''status'', JNum 200), (''msg'', JStr ''Profile updated successfully''),
                                    (''token'', JStr token), (''userData'', JObj (userData (snd usr)))]),
                   s'))))"

section \<open>The token issuer\<close>

text \<open>
  Modelled from the spec: the Token Issuer (\<^verbatim>\<open>jwt.sign\<close> and \<^verbatim>\<open>jwt.verify\<close> of the
  jsonwebtoken library and \<^verbatim>\<open>middleware/verifyToken.mjs\<close> are not among the sources).
  A token is self-contained: the claims and a signature of them under the secret, the
  keyed signature function \<open>mac\<close> being a parameter. \<open>verify\<close> checks the signature and
  decodes the claims, and fails closed.
\<close>

record token =
  tok_claims :: "(string \<times> json) list"
  tok_signature :: string

definition issue ::
  "(string \<Rightarrow> (string \<times> json) list \<Rightarrow> string) \<Rightarrow> string \<Rightarrow> (string \<times> json) list \<Rightarrow> token" where
  "issue mac secret claims = \<lparr>tok_claims = claims, tok_signature = mac secret claims\<rparr>"

definition verify ::
  "(string \<Rightarrow> (string \<times> json) list \<Rightarrow> string) \<Rightarrow> string \<Rightarrow> token \<Rightarrow> (string \<times> json) list option" where
  "verify mac secret t =
     (if tok_signature t = mac secret (tok_claims t) then Some (tok_claims t) else None)"

section \<open>Fixtures\<close>

text \<open>
  Stand-ins for the collaborators, and a small table, for the closed instances below:
  a hasher that prefixes the password, its comparison, and a signer that refuses a missing
  or empty secret.
\<close>

definition demo_hash :: "string \<Rightarrow> js_error + string" where
  "demo_hash plain = Inr (''h:'' @ plain)"

definition demo_compare :: "string \<Rightarrow> string \<Rightarrow> js_error + bool" where
  "demo_compare digest plain = Inr (digest = ''h:'' @ plain)"

definition strict_sign :: "(string \<times> json) list \<Rightarrow> string option \<Rightarrow> js_error + string" where
  "strict_sign claims secret =
     (case secret of
        None \<Rightarrow> Inl (Error ''secretOrPrivateKey must have a value'')
      | Some k \<Rightarrow>
          if k = [] then Inl (Error ''secretOrPrivateKey must have a value'')
          else Inr (''signed:'' @ k))"

definition alice :: user where
  "alice = \<lparr>role = ''user'', username = ''alice'', hashed_password = ''h:secret1'',
            fname = ''Alice'', lname = ''Lee'', email = ''alice@x.com'', address = ''Addr1''\<rparr>"

definition mallory :: user where
  "mallory = \<lparr>role = ''guest'', username = ''mallory'', hashed_password = ''h:pw'',
              fname = ''Mal'', lname = ''Lory'', email = ''mal@x.com'', address = ''Addr9''\<rparr>"

definition demo_db :: db where
  "demo_db = \<lparr>rows = [alice, mallory], faults = []\<rparr>"

definition dup_unknown_db :: db where
  \<comment> \<open>the driver reports the violated unique index under its own name\<close>
  "dup_unknown_db =
     \<lparr>rows = [alice],
      faults = [Some (SequelizeUniqueConstraintError (Some [(''users_email_key'', ''alice@x.com'')]))]\<rparr>"

section \<open>The store's operations and the rows\<close>

lemma next_fault_rows: "rows (snd (next_fault s)) = rows s"
  by (simp add: next_fault_def split: list.splits)

lemma next_fault_None_rows: "next_fault s = (f, s') \<Longrightarrow> rows s' = rows s"
  using next_fault_rows [of s] by simp

lemma findOne_rows: "findOne uname s = (r, s') \<Longrightarrow> rows s' = rows s"
  by (auto simp: findOne_def split: prod.splits option.splits dest: next_fault_None_rows)

lemma findOne_result:
  "findOne uname s = (Inr r, s') \<Longrightarrow> r = find_row uname (rows s)"
  by (auto simp: findOne_def split: prod.splits option.splits dest: next_fault_None_rows)

lemma find_row_Some:
  "find_row uname us = Some (i, u) \<Longrightarrow> i < length us \<and> us ! i = u \<and> username u = uname"
  unfolding find_row_def
  by (auto simp: find_Some_iff nth_enumerate_eq)

lemma find_row_None: "find_row uname us = None \<longleftrightarrow> uname \<notin> username ` set us"
proof -
  have "(\<exists>p. p \<in> set (enumerate 0 us) \<and> username (snd p) = uname)
          \<longleftrightarrow> (\<exists>u. u \<in> set us \<and> username u = uname)"
  proof
    assume "\<exists>p. p \<in> set (enumerate 0 us) \<and> username (snd p) = uname"
    then obtain p where p: "p \<in> set (enumerate 0 us)" and n: "username (snd p) = uname"
      by blast
    from p have "fst p < length us" and "us ! fst p = snd p"
      by (simp_all add: in_set_enumerate_eq)
    then have "snd p \<in> set us" by (metis nth_mem)
    with n show "\<exists>u. u \<in> set us \<and> username u = uname" by blast
  next
    assume "\<exists>u. u \<in> set us \<and> username u = uname"
    then obtain u where u: "u \<in> set us" and n: "username u = uname" by blast
    from u obtain i where "i < length us" and "us ! i = u"
      by (auto simp: in_set_conv_nth)
    then have "(i, u) \<in> set (enumerate 0 us)"
      by (simp add: in_set_enumerate_eq)
    with n show "\<exists>p. p \<in> set (enumerate 0 us) \<and> username (snd p) = uname"
      by force
  qed
  moreover have "(uname \<notin> username ` set us) \<longleftrightarrow> \<not> (\<exists>u. u \<in> set us \<and> username u = uname)"
    by (auto simp: image_iff)
  ultimately show ?thesis
    unfolding find_row_def find_None_iff case_prod_beta by simp
qed

lemma save_rows:
  "save inst s = (r, s') \<Longrightarrow> rows s' = rows s \<or> rows s' = (rows s)[fst inst := snd inst]"
  by (auto simp: save_def split: prod.splits option.splits dest: next_fault_None_rows)

lemma create_rows:
  "create u s = (r, s') \<Longrightarrow> rows s' = rows s \<or> rows s' = rows s @ [u]"
  by (auto simp: create_def split: prod.splits option.splits if_splits dest: next_fault_None_rows)

text \<open>
  Claim C10. \<open>loginUser\<close> never writes to the credential store: for every username and
  password, the table's rows after the call are the rows before it, whether the login
  succeeds, fails or throws.
\<close>

theorem loginUser_read_only:
  "rows (snd (loginUser comparePasswords uname password s)) = rows s"
  by (auto simp: loginUser_def split: prod.splits sum.splits option.splits dest: findOne_rows)

lemma updateUserProfile_rows:
  "rows (snd (updateUserProfile uname firstname lastname addr s)) = rows s \<or>
   (\<exists>i u. find_row uname (rows s) = Some (i, u) \<and>
      rows (snd (updateUserProfile uname firstname lastname addr s)) =
        (rows s)[i := u\<lparr>fname := firstname, lname := lastname, address := addr\<rparr>])"
proof (cases "findOne uname s")
  case (Pair r s1)
  note f = this
  have r1: "rows s1 = rows s" using f by (rule findOne_rows)
  show ?thesis
  proof (cases r)
    case (Inl e)
    then show ?thesis using f r1 by (simp add: updateUserProfile_def)
  next
    case (Inr found)
    then have found: "found = find_row uname (rows s)" using f findOne_result by blast
    show ?thesis
    proof (cases found)
      case None
      then show ?thesis using f r1 Inr by (simp add: updateUserProfile_def)
    next
      case (Some usr)
      obtain r2 s2 where sv:
        "save (fst usr, (snd usr)\<lparr>fname := firstname, lname := lastname, address := addr\<rparr>) s1 = (r2, s2)"
        by (cases "save (fst usr, (snd usr)\<lparr>fname := firstname, lname := lastname, address := addr\<rparr>) s1")
      have res: "snd (updateUserProfile uname firstname lastname addr s) = s2"
        using f Inr Some sv by (simp add: updateUserProfile_def split: sum.splits)
      from save_rows [OF sv] r1
      have "rows s2 = rows s \<or>
            rows s2 = (rows s)[fst usr := (snd usr)\<lparr>fname := firstname, lname := lastname, address := addr\<rparr>]"
        by simp
      moreover have "find_row uname (rows s) = Some (fst usr, snd usr)"
        using found Some by simp
      ultimately show ?thesis using res by (cases usr) auto
    qed
  qed
qed

text \<open>
  Claim C4. For every call of \<open>updateUserProfile\<close>, the role, username, email and stored
  password hash of every row are what they were before the call; the table either stays
  as it is, or changes at the target row only, where first name, last name and address are
  set to the given values.
\<close>

theorem updateUserProfile_frame:
  "map (\<lambda>u. (role u, username u, email u, hashed_password u))
       (rows (snd (updateUserProfile uname firstname lastname addr s)))
   = map (\<lambda>u. (role u, username u, email u, hashed_password u)) (rows s)
   \<and> (rows (snd (updateUserProfile uname firstname lastname addr s)) = rows s \<or>
      (\<exists>i u. find_row uname (rows s) = Some (i, u) \<and>
         rows (snd (updateUserProfile uname firstname lastname addr s)) =
           (rows s)[i := u\<lparr>fname := firstname, lname := lastname, address := addr\<rparr>]))"
proof -
  let ?s' = "snd (updateUserProfile uname firstname lastname addr s)"
  let ?key = "\<lambda>u. (role u, username u, email u, hashed_password u)"
  have shape: "rows ?s' = rows s \<or>
    (\<exists>i u. find_row uname (rows s) = Some (i, u) \<and>
       rows ?s' = (rows s)[i := u\<lparr>fname := firstname, lname := lastname, address := addr\<rparr>])"
    by (rule updateUserProfile_rows)
  have "map ?key (rows ?s') = map ?key (rows s)"
  proof -
    from shape show ?thesis
    proof
      assume "rows ?s' = rows s"
      then show ?thesis by simp
    next
      assume "\<exists>i u. find_row uname (rows s) = Some (i, u) \<and>
         rows ?s' = (rows s)[i := u\<lparr>fname := firstname, lname := lastname, address := addr\<rparr>]"
      then obtain i u where fr: "find_row uname (rows s) = Some (i, u)"
        and upd: "rows ?s' = (rows s)[i := u\<lparr>fname := firstname, lname := lastname, address := addr\<rparr>]"
        by blast
      from find_row_Some [OF fr] have i: "i < length (rows s)" and u: "rows s ! i = u" by simp_all
      have "map ?key (rows ?s') = (map ?key (rows s))[i := ?key u]"
        by (simp add: upd map_update)
      also have "\<dots> = (map ?key (rows s))[i := map ?key (rows s) ! i]"
        using i u by simp
      also have "\<dots> = map ?key (rows s)" by (rule list_update_id)
      finally show ?thesis .
    qed
  qed
  with shape show ?thesis by blast
qed

text \<open>
  Claim C9. For all inputs of \<open>registerUser\<close>, the rows that were in the table are kept
  and the call adds either no row or exactly one row, whose role is \<^verbatim>\<open>user\<close>.
\<close>

theorem registerUser_role_user:
  "take (length (rows s)) (rows (snd (registerUser hashPassword uname password firstname lastname mail addr s))) = rows s
   \<and> (map role (drop (length (rows s)) (rows (snd (registerUser hashPassword uname password firstname lastname mail addr s)))) = []
      \<or> map role (drop (length (rows s)) (rows (snd (registerUser hashPassword uname password firstname lastname mail addr s)))) = [''user''])"
  by (auto simp: registerUser_def split: sum.splits prod.splits dest!: create_rows)

text \<open>
  Claim C6. For every claims set, verifying the token issued from it under the same secret
  yields exactly that claims set.
\<close>

theorem verify_issue_roundtrip: "verify mac secret (issue mac secret claims) = Some claims"
  by (simp add: verify_def issue_def)

section \<open>Login, registration and profile update\<close>

lemma findOne_no_fault:
  "fst (next_fault s) = None \<Longrightarrow> fst (findOne uname s) = Inr (find_row uname (rows s))"
  by (cases "next_fault s") (auto simp: findOne_def dest: next_fault_None_rows)

lemma find_row_demo_ghost: "find_row ''ghost'' (rows demo_db) = None"
  by (simp add: find_row_def demo_db_def alice_def mallory_def enumerate_eq_zip)

lemma find_row_demo_alice: "find_row ''alice'' (rows demo_db) = Some (0, alice)"
  by (simp add: find_row_def demo_db_def alice_def mallory_def)

lemma find_row_demo_mallory: "find_row ''mallory'' (rows demo_db) = Some (1, mallory)"
  by (simp add: find_row_def demo_db_def alice_def mallory_def)

lemma next_fault_demo: "next_fault demo_db = (None, demo_db)"
  by (simp add: next_fault_def demo_db_def)

text \<open>
  Claim C3, as stated, fails: on the fixture table, a login with a username that is not in
  the store and a login of an existing user with a password that does not verify return
  the same value, \<^verbatim>\<open>false\<close>, and leave the same store; nothing at the result of
  \<open>loginUser\<close> tells the two apart.
\<close>

theorem loginUser_failures_counterexample:
  "find_row ''ghost'' (rows demo_db) = None
   \<and> find_row ''alice'' (rows demo_db) = Some (0, alice)
   \<and> demo_compare (hashed_password alice) ''wrong'' = Inr False
   \<and> fst (loginUser demo_compare ''ghost'' ''secret1'' demo_db) = Inr None
   \<and> fst (loginUser demo_compare ''alice'' ''wrong'' demo_db) = Inr None
   \<and> loginUser demo_compare ''ghost'' ''secret1'' demo_db = loginUser demo_compare ''alice'' ''wrong'' demo_db"
  by (simp add: loginUser_def findOne_def next_fault_demo find_row_demo_ghost find_row_demo_alice
      demo_compare_def alice_def)

text \<open>
  Claim C3 (amended). For every login call whose lookup completes, both failure modes give
  the same result: if the username is absent from the credential store, or if the user
  exists but the password does not verify, \<open>loginUser\<close> returns \<^verbatim>\<open>false\<close>.
\<close>

theorem loginUser_failures_same_value:
  assumes "fst (next_fault s) = None"
    and "find_row uname (rows s) = None
         \<or> (\<exists>i u. find_row uname (rows s) = Some (i, u) \<and> comparePasswords (hashed_password u) password = Inr False)"
  shows "fst (loginUser comparePasswords uname password s) = Inr None"
proof -
  from assms(1) have "fst (findOne uname s) = Inr (find_row uname (rows s))"
    by (rule findOne_no_fault)
  then obtain s' where f: "findOne uname s = (Inr (find_row uname (rows s)), s')"
    by (cases "findOne uname s") simp
  from assms(2) show ?thesis
    using f by (auto simp: loginUser_def)
qed

text \<open>Both failure modes on the fixture table.\<close>

theorem loginUser_failures_same_value_witness:
  "fst (next_fault demo_db) = None
   \<and> find_row ''ghost'' (rows demo_db) = None
   \<and> fst (loginUser demo_compare ''ghost'' ''secret1'' demo_db) = Inr None
   \<and> (\<exists>i u. find_row ''alice'' (rows demo_db) = Some (i, u) \<and> demo_compare (hashed_password u) ''wrong'' = Inr False)
   \<and> fst (loginUser demo_compare ''alice'' ''wrong'' demo_db) = Inr None"
proof -
  have h1: "fst (next_fault demo_db) = None" by (simp add: next_fault_demo)
  have h2: "find_row ''ghost'' (rows demo_db) = None" by (rule find_row_demo_ghost)
  have h3: "\<exists>i u. find_row ''alice'' (rows demo_db) = Some (i, u) \<and> demo_compare (hashed_password u) ''wrong'' = Inr False"
    by (simp add: find_row_demo_alice demo_compare_def alice_def)
  from loginUser_failures_same_value [OF h1, of "''ghost''" demo_compare "''secret1''"] h2
  have c1: "fst (loginUser demo_compare ''ghost'' ''secret1'' demo_db) = Inr None" by blast
  from loginUser_failures_same_value [OF h1, of "''alice''" demo_compare "''wrong''"] h3
  have c2: "fst (loginUser demo_compare ''alice'' ''wrong'' demo_db) = Inr None" by blast
  from h1 h2 h3 c1 c2 show ?thesis by blast
qed

text \<open>
  Claim C5. For every login where the lookup finds the user and the stored password
  verifies, but the role of the record is neither \<^verbatim>\<open>user\<close> nor \<^verbatim>\<open>admin\<close>, the handler
  answers status 401 with \<^verbatim>\<open>Invalid username or password\<close>; the answer holds no token,
  whatever the signer and the secret are.
\<close>

theorem login_unknown_role_rejected:
  assumes "fst (next_fault s) = None"
    and "find_row uname (rows s) = Some (i, u)"
    and "comparePasswords (hashed_password u) password = Inr True"
    and "role u \<noteq> ''user''" and "role u \<noteq> ''admin''"
  shows "fst (loginUser comparePasswords uname password s) = Inr (Some (i, u))
     \<and> fst (login_route sign comparePasswords secret True uname password s)
         = Responded (JObj [(''status'', JNum 401), (''error'', JStr ''Invalid username or password'')])"
proof -
  from assms(1) have "fst (findOne uname s) = Inr (find_row uname (rows s))"
    by (rule findOne_no_fault)
  then obtain s' where f: "findOne uname s = (Inr (Some (i, u)), s')"
    using assms(2) by (cases "findOne uname s") simp
  have l: "loginUser comparePasswords uname password s = (Inr (Some (i, u)), s')"
    using f assms(3) by (simp add: loginUser_def)
  show ?thesis using l assms(4,5) by (simp add: login_route_def status_error_def)
qed

text \<open>The fixture user with role \<^verbatim>\<open>guest\<close> and the right password.\<close>

theorem login_unknown_role_rejected_witness:
  "fst (next_fault demo_db) = None
   \<and> find_row ''mallory'' (rows demo_db) = Some (1, mallory)
   \<and> demo_compare (hashed_password mallory) ''pw'' = Inr True
   \<and> role mallory \<noteq> ''user'' \<and> role mallory \<noteq> ''admin''
   \<and> fst (loginUser demo_compare ''mallory'' ''pw'' demo_db) = Inr (Some (1, mallory))
   \<and> fst (login_route strict_sign demo_compare (Some ''k'') True ''mallory'' ''pw'' demo_db)
         = Responded (JObj [(''status'', JNum 401), (''error'', JStr ''Invalid username or password'')])"
proof -
  have h1: "fst (next_fault demo_db) = None" by (simp add: next_fault_demo)
  have h2: "find_row ''mallory'' (rows demo_db) = Some (1, mallory)" by (rule find_row_demo_mallory)
  have h3: "demo_compare (hashed_password mallory) ''pw'' = Inr True"
    by (simp add: demo_compare_def mallory_def)
  have h4: "role mallory \<noteq> ''user''" and h5: "role mallory \<noteq> ''admin''"
    by (simp_all add: mallory_def)
  from login_unknown_role_rejected
      [where s = demo_db and uname = "''mallory''" and i = 1 and u = mallory
         and comparePasswords = demo_compare and password = "''pw''"
         and sign = strict_sign and secret = "Some ''k''", OF h1 h2 h3 h4 h5]
    h1 h2 h3 h4 h5
  show ?thesis by blast
qed

lemma registerUser_catch_messages:
  "err_message (registerUser_catch e) = ''Username already exists''
   \<or> err_message (registerUser_catch e) = ''Email already exists''
   \<or> err_message (registerUser_catch e) = ''Username or email already exists''
   \<or> err_message (registerUser_catch e) = ''Error registering user''"
  by (simp add: registerUser_catch_def Error_def)

lemma register_route_reply:
  assumes "hashPassword confirmPassword = Inr h" and "faults s = Some e # fs"
  shows "fst (register_route hashPassword True firstname lastname mail addr uname confirmPassword s)
     = (if err_name e = ''SequelizeUniqueConstraintError'' \<and> has_field (err_fields e) ''username''
        then Responded (status_error 401 ''Username already exists'')
        else if err_name e = ''SequelizeUniqueConstraintError'' \<and> has_field (err_fields e) ''email''
        then Responded (status_error 401 ''Email already exists'')
        else Responded (status_error 500 ''Internal server error''))"
  using assms
  by (simp add: register_route_def registerUser_def create_def next_fault_def registerUser_catch_def
      Error_def)

text \<open>
  Claim C1. When the creation violates the uniqueness constraint and the error names
  neither \<^verbatim>\<open>username\<close> nor \<^verbatim>\<open>email\<close>, the claim has the caller surface
  \<^verbatim>\<open>Email or username already exists\<close>. The service throws
  \<^verbatim>\<open>Username or email already exists\<close>, which the handler does not recognise: on the
  fixture below it answers status 500 with \<^verbatim>\<open>Internal server error\<close>.
\<close>

theorem register_unknown_field_reply:
  "fst (registerUser demo_hash ''bob'' ''pw'' ''Bob'' ''Ray'' ''alice@x.com'' ''Addr2'' dup_unknown_db)
     = Inl (Error ''Username or email already exists'')
   \<and> fst (register_route demo_hash True ''Bob'' ''Ray'' ''alice@x.com'' ''Addr2'' ''bob'' ''pw'' dup_unknown_db)
     = Responded (JObj [(''status'', JNum 500), (''error'', JStr ''Internal server error'')])"
  by (simp add: register_route_def registerUser_def create_def next_fault_def dup_unknown_db_def
      registerUser_catch_def SequelizeUniqueConstraintError_def has_field_def Error_def
      demo_hash_def status_error_def)

lemma loginUser_Some:
  "loginUser comparePasswords uname password s = (Inr (Some usr), s') \<Longrightarrow>
     find_row uname (rows s) = Some usr"
  by (auto simp: loginUser_def split: prod.splits sum.splits option.splits if_splits
      dest: findOne_result)

lemma updateUserProfile_Some:
  "updateUserProfile uname firstname lastname addr s = (Inr (Some usr), s') \<Longrightarrow>
     \<exists>i u. find_row uname (rows s) = Some (i, u)
       \<and> usr = (i, u\<lparr>fname := firstname, lname := lastname, address := addr\<rparr>)"
  by (auto simp: updateUserProfile_def save_def
      split: prod.splits sum.splits option.splits if_splits dest!: findOne_result [THEN sym])

lemma login_route_200:
  assumes "fst (login_route sign comparePasswords secret valid uname password s) = Responded (JObj body)"
    and "map_of body ''status'' = Some (JNum 200)"
  shows "\<exists>i u t. find_row uname (rows s) = Some (i, u) \<and> sign (userData u) secret = Inr t
           \<and> body = [(''status'', JNum 200), (''token'', JStr t), (''user'', JObj (userData u))]"
proof (cases "loginUser comparePasswords uname password s")
  case (Pair r s')
  note l = this
  from assms have valid: valid
    by (auto simp: login_route_def status_error_def split: if_splits)
  show ?thesis
  proof (cases r)
    case (Inl e)
    with assms l valid show ?thesis by (auto simp: login_route_def status_error_def)
  next
    case (Inr found)
    show ?thesis
    proof (cases found)
      case None
      with assms l valid Inr show ?thesis by (auto simp: login_route_def status_error_def)
    next
      case (Some usr)
      from l Inr Some have fr: "find_row uname (rows s) = Some (fst usr, snd usr)"
        using loginUser_Some by fastforce
      from assms l valid Inr Some
      have "\<exists>t. sign (userData (snd usr)) secret = Inr t
           \<and> body = [(''status'', JNum 200), (''token'', JStr t), (''user'', JObj (userData (snd usr)))]"
        by (auto simp: login_route_def status_error_def split: if_splits sum.splits)
      with fr show ?thesis by blast
    qed
  qed
qed

lemma updateProfile_route_200:
  assumes "fst (updateProfile_route sign secret valid uname firstname lastname addr s) = Responded (JObj body)"
    and "map_of body ''status'' = Some (JNum 200)"
  shows "\<exists>i u t. find_row uname (rows s) = Some (i, u)
           \<and> sign (userData (u\<lparr>fname := firstname, lname := lastname, address := addr\<rparr>)) secret = Inr t
           \<and> body = [(''status'', JNum 200), (''msg'', JStr ''Profile updated successfully''),
                     (''token'', JStr t),
                     (''userData'', JObj (userData (u\<lparr>fname := firstname, lname := lastname, address := addr\<rparr>)))]"
proof (cases "updateUserProfile uname firstname lastname addr s")
  case (Pair r s')
  note l = this
  from assms have valid: valid
    by (auto simp: updateProfile_route_def status_error_def split: if_splits)
  show ?thesis
  proof (cases r)
    case (Inl e)
    with assms l valid show ?thesis by (auto simp: updateProfile_route_def)
  next
    case (Inr found)
    show ?thesis
    proof (cases found)
      case None
      with assms l valid Inr show ?thesis by (auto simp: updateProfile_route_def status_msg_def)
    next
      case (Some usr)
      from l Inr Some obtain i u where fr: "find_row uname (rows s) = Some (i, u)"
        and usr: "usr = (i, u\<lparr>fname := firstname, lname := lastname, address := addr\<rparr>)"
        using updateUserProfile_Some by blast
      from assms l valid Inr Some
      have "\<exists>t. sign (userData (snd usr)) secret = Inr t
           \<and> body = [(''status'', JNum 200), (''msg'', JStr ''Profile updated successfully''),
                     (''token'', JStr t), (''userData'', JObj (userData (snd usr)))]"
        by (auto simp: updateProfile_route_def split: if_splits sum.splits)
      with fr usr show ?thesis by auto
    qed
  qed
qed

text \<open>
  Claim C7. On every successful login and every successful profile update (an answer with
  status 200), the token of the answer is what the signer returned for the claims object,
  and the claims object and the user structure of the answer hold exactly the six entries
  \<^verbatim>\<open>role\<close>, \<^verbatim>\<open>username\<close>, \<^verbatim>\<open>fname\<close>, \<^verbatim>\<open>lname\<close>, \<^verbatim>\<open>email\<close>, \<^verbatim>\<open>address\<close>, each
  with the value of that field of the user (after a profile update, the new first name,
  last name and address). The stored password hash is not part of it: the object has no
  key \<^verbatim>\<open>hashed_password\<close>, it stays the same when the stored hash is replaced by any
  other, and the hash is not among its values unless it is equal to one of the six fields.
\<close>

theorem success_replies_sanitized:
  "(fst (login_route sign comparePasswords secret valid uname password s) = Responded (JObj body)
      \<and> map_of body ''status'' = Some (JNum 200) \<longrightarrow>
      (\<exists>i u t. find_row uname (rows s) = Some (i, u)
         \<and> sign [(''role'', JStr (role u)), (''username'', JStr (username u)),
                  (''fname'', JStr (fname u)), (''lname'', JStr (lname u)),
                  (''email'', JStr (email u)), (''address'', JStr (address u))] secret = Inr t
         \<and> body = [(''status'', JNum 200), (''token'', JStr t),
                    (''user'', JObj [(''role'', JStr (role u)), (''username'', JStr (username u)),
                                     (''fname'', JStr (fname u)), (''lname'', JStr (lname u)),
                                     (''email'', JStr (email u)), (''address'', JStr (address u))])]))
   \<and> (fst (updateProfile_route sign secret valid' uname' firstname lastname addr s') = Responded (JObj body')
      \<and> map_of body' ''status'' = Some (JNum 200) \<longrightarrow>
      (\<exists>i u t. find_row uname' (rows s') = Some (i, u)
         \<and> sign [(''role'', JStr (role u)), (''username'', JStr (username u)),
                  (''fname'', JStr firstname), (''lname'', JStr lastname),
                  (''email'', JStr (email u)), (''address'', JStr addr)] secret = Inr t
         \<and> body' = [(''status'', JNum 200), (''msg'', JStr ''Profile updated successfully''),
                    (''token'', JStr t),
                    (''userData'', JObj [(''role'', JStr (role u)), (''username'', JStr (username u)),
                                         (''fname'', JStr firstname), (''lname'', JStr lastname),
                                         (''email'', JStr (email u)), (''address'', JStr addr)])]))
   \<and> userData v = [(''role'', JStr (role v)), (''username'', JStr (username v)),
                    (''fname'', JStr (fname v)), (''lname'', JStr (lname v)),
                    (''email'', JStr (email v)), (''address'', JStr (address v))]
   \<and> userData (v\<lparr>hashed_password := h\<rparr>) = userData v
   \<and> (hashed_password v \<noteq> role v \<and> hashed_password v \<noteq> username v
        \<and> hashed_password v \<noteq> fname v \<and> hashed_password v \<noteq> lname v
        \<and> hashed_password v \<noteq> email v \<and> hashed_password v \<noteq> address v \<longrightarrow>
        JStr (hashed_password v) \<notin> snd ` set (userData v))
   \<and> map fst (userData v) = [''role'', ''username'', ''fname'', ''lname'', ''email'', ''address'']
   \<and> ''hashed_password'' \<notin> fst ` set (userData v)"
proof (intro conjI impI)
  assume "fst (login_route sign comparePasswords secret valid uname password s) = Responded (JObj body)
      \<and> map_of body ''status'' = Some (JNum 200)"
  then have "\<exists>i u t. find_row uname (rows s) = Some (i, u) \<and> sign (userData u) secret = Inr t
           \<and> body = [(''status'', JNum 200), (''token'', JStr t), (''user'', JObj (userData u))]"
    using login_route_200 [of sign comparePasswords secret valid uname password s body] by simp
  then show "\<exists>i u t. find_row uname (rows s) = Some (i, u)
         \<and> sign [(''role'', JStr (role u)), (''username'', JStr (username u)),
                  (''fname'', JStr (fname u)), (''lname'', JStr (lname u)),
                  (''email'', JStr (email u)), (''address'', JStr (address u))] secret = Inr t
         \<and> body = [(''status'', JNum 200), (''token'', JStr t),
                    (''user'', JObj [(''role'', JStr (role u)), (''username'', JStr (username u)),
                                     (''fname'', JStr (fname u)), (''lname'', JStr (lname u)),
                                     (''email'', JStr (email u)), (''address'', JStr (address u))])]"
    unfolding userData_def .
next
  assume "fst (updateProfile_route sign secret valid' uname' firstname lastname addr s') = Responded (JObj body')
      \<and> map_of body' ''status'' = Some (JNum 200)"
  then have "\<exists>i u t. find_row uname' (rows s') = Some (i, u)
           \<and> sign (userData (u\<lparr>fname := firstname, lname := lastname, address := addr\<rparr>)) secret = Inr t
           \<and> body' = [(''status'', JNum 200), (''msg'', JStr ''Profile updated successfully''),
                     (''token'', JStr t),
                     (''userData'', JObj (userData (u\<lparr>fname := firstname, lname := lastname, address := addr\<rparr>)))]"
    using updateProfile_route_200 [of sign secret valid' uname' firstname lastname addr s' body'] by simp
  then show "\<exists>i u t. find_row uname' (rows s') = Some (i, u)
         \<and> sign [(''role'', JStr (role u)), (''username'', JStr (username u)),
                  (''fname'', JStr firstname), (''lname'', JStr lastname),
                  (''email'', JStr (email u)), (''address'', JStr addr)] secret = Inr t
         \<and> body' = [(''status'', JNum 200), (''msg'', JStr ''Profile updated successfully''),
                    (''token'', JStr t),
                    (''userData'', JObj [(''role'', JStr (role u)), (''username'', JStr (username u)),
                                         (''fname'', JStr firstname), (''lname'', JStr lastname),
                                         (''email'', JStr (email u)), (''address'', JStr addr)])]"
    by (simp add: userData_def)
next
  show "userData v = [(''role'', JStr (role v)), (''username'', JStr (username v)),
                    (''fname'', JStr (fname v)), (''lname'', JStr (lname v)),
                    (''email'', JStr (email v)), (''address'', JStr (address v))]"
    by (simp add: userData_def)
next
  show "userData (v\<lparr>hashed_password := h\<rparr>) = userData v"
    by (simp add: userData_def)
next
  assume "hashed_password v \<noteq> role v \<and> hashed_password v \<noteq> username v
        \<and> hashed_password v \<noteq> fname v \<and> hashed_password v \<noteq> lname v
        \<and> hashed_password v \<noteq> email v \<and> hashed_password v \<noteq> address v"
  then show "JStr (hashed_password v) \<notin> snd ` set (userData v)"
    by (simp add: userData_def)
next
  show "map fst (userData v) = [''role'', ''username'', ''fname'', ''lname'', ''email'', ''address'']"
    by (simp add: userData_def)
next
  show "''hashed_password'' \<notin> fst ` set (userData v)"
    by (simp add: userData_def)
qed

lemma login_alice:
  "fst (login_route strict_sign demo_compare (Some ''k'') True ''alice'' ''secret1'' demo_db)
     = Responded (JObj [(''status'', JNum 200), (''token'', JStr ''signed:k''),
         (''user'', JObj [(''role'', JStr ''user''), (''username'', JStr ''alice''),
                          (''fname'', JStr ''Alice''), (''lname'', JStr ''Lee''),
                          (''email'', JStr ''alice@x.com''), (''address'', JStr ''Addr1'')])])"
  by (simp add: login_route_def loginUser_def findOne_def next_fault_demo find_row_demo_alice
      demo_compare_def strict_sign_def alice_def userData_def)

lemma update_alice:
  "fst (updateProfile_route strict_sign (Some ''k'') True ''alice'' ''Alicia'' ''Lee'' ''Addr2'' demo_db)
     = Responded (JObj [(''status'', JNum 200), (''msg'', JStr ''Profile updated successfully''),
         (''token'', JStr ''signed:k''),
         (''userData'', JObj [(''role'', JStr ''user''), (''username'', JStr ''alice''),
                              (''fname'', JStr ''Alicia''), (''lname'', JStr ''Lee''),
                              (''email'', JStr ''alice@x.com''), (''address'', JStr ''Addr2'')])])"
  by (simp add: updateProfile_route_def updateUserProfile_def findOne_def save_def next_fault_demo
      find_row_demo_alice strict_sign_def userData_def alice_def)

text \<open>
  A successful login and a successful profile update on the fixture table; the stored
  hash of the fixture user is not among the values of the claims.
\<close>

theorem success_replies_sanitized_witness:
  "fst (login_route strict_sign demo_compare (Some ''k'') True ''alice'' ''secret1'' demo_db)
     = Responded (JObj [(''status'', JNum 200), (''token'', JStr ''signed:k''),
         (''user'', JObj [(''role'', JStr ''user''), (''username'', JStr ''alice''),
                          (''fname'', JStr ''Alice''), (''lname'', JStr ''Lee''),
                          (''email'', JStr ''alice@x.com''), (''address'', JStr ''Addr1'')])])
   \<and> (\<exists>i u t. find_row ''alice'' (rows demo_db) = Some (i, u)
         \<and> strict_sign [(''role'', JStr (role u)), (''username'', JStr (username u)),
                  (''fname'', JStr (fname u)), (''lname'', JStr (lname u)),
                  (''email'', JStr (email u)), (''address'', JStr (address u))] (Some ''k'') = Inr t
         \<and> [(''status'', JNum 200), (''token'', JStr ''signed:k''),
             (''user'', JObj [(''role'', JStr ''user''), (''username'', JStr ''alice''),
                              (''fname'', JStr ''Alice''), (''lname'', JStr ''Lee''),
                              (''email'', JStr ''alice@x.com''), (''address'', JStr ''Addr1'')])]
            = [(''status'', JNum 200), (''token'', JStr t),
               (''user'', JObj [(''role'', JStr (role u)), (''username'', JStr (username u)),
                                (''fname'', JStr (fname u)), (''lname'', JStr (lname u)),
                                (''email'', JStr (email u)), (''address'', JStr (address u))])])
   \<and> fst (updateProfile_route strict_sign (Some ''k'') True ''alice'' ''Alicia'' ''Lee'' ''Addr2'' demo_db)
     = Responded (JObj [(''status'', JNum 200), (''msg'', JStr ''Profile updated successfully''),
         (''token'', JStr ''signed:k''),
         (''userData'', JObj [(''role'', JStr ''user''), (''username'', JStr ''alice''),
                              (''fname'', JStr ''Alicia''), (''lname'', JStr ''Lee''),
                              (''email'', JStr ''alice@x.com''), (''address'', JStr ''Addr2'')])])
   \<and> (\<exists>i u t. find_row ''alice'' (rows demo_db) = Some (i, u)
         \<and> strict_sign [(''role'', JStr (role u)), (''username'', JStr (username u)),
                  (''fname'', JStr ''Alicia''), (''lname'', JStr ''Lee''),
                  (''email'', JStr (email u)), (''address'', JStr ''Addr2'')] (Some ''k'') = Inr t
         \<and> [(''status'', JNum 200), (''msg'', JStr ''Profile updated successfully''),
             (''token'', JStr ''signed:k''),
             (''userData'', JObj [(''role'', JStr ''user''), (''username'', JStr ''alice''),
                                  (''fname'', JStr ''Alicia''), (''lname'', JStr ''Lee''),
                                  (''email'', JStr ''alice@x.com''), (''address'', JStr ''Addr2'')])]
            = [(''status'', JNum 200), (''msg'', JStr ''Profile updated successfully''),
               (''token'', JStr t),
               (''userData'', JObj [(''role'', JStr (role u)), (''username'', JStr (username u)),
                                    (''fname'', JStr ''Alicia''), (''lname'', JStr ''Lee''),
                                    (''email'', JStr (email u)), (''address'', JStr ''Addr2'')])])
   \<and> userData alice = [(''role'', JStr (role alice)), (''username'', JStr (username alice)),
                    (''fname'', JStr (fname alice)), (''lname'', JStr (lname alice)),
                    (''email'', JStr (email alice)), (''address'', JStr (address alice))]
   \<and> userData (alice\<lparr>hashed_password := ''h:changed''\<rparr>) = userData alice
   \<and> (hashed_password alice \<noteq> role alice \<and> hashed_password alice \<noteq> username alice
        \<and> hashed_password alice \<noteq> fname alice \<and> hashed_password alice \<noteq> lname alice
        \<and> hashed_password alice \<noteq> email alice \<and> hashed_password alice \<noteq> address alice)
   \<and> JStr (hashed_password alice) \<notin> snd ` set (userData alice)
   \<and> JStr ''h:secret1'' \<notin> snd ` set (userData alice)
   \<and> map fst (userData alice) = [''role'', ''username'', ''fname'', ''lname'', ''email'', ''address'']
   \<and> ''hashed_password'' \<notin> fst ` set (userData alice)"
proof -
  let ?ua = "[(''role'', JStr ''user''), (''username'', JStr ''alice''),
              (''fname'', JStr ''Alice''), (''lname'', JStr ''Lee''),
              (''email'', JStr ''alice@x.com''), (''address'', JStr ''Addr1'')]"
  let ?ua' = "[(''role'', JStr ''user''), (''username'', JStr ''alice''),
               (''fname'', JStr ''Alicia''), (''lname'', JStr ''Lee''),
               (''email'', JStr ''alice@x.com''), (''address'', JStr ''Addr2'')]"
  let ?b = "[(''status'', JNum 200), (''token'', JStr ''signed:k''), (''user'', JObj ?ua)]"
  let ?b' = "[(''status'', JNum 200), (''msg'', JStr ''Profile updated successfully''),
         (''token'', JStr ''signed:k''), (''userData'', JObj ?ua')]"
  have h1: "fst (login_route strict_sign demo_compare (Some ''k'') True ''alice'' ''secret1'' demo_db)
     = Responded (JObj ?b)"
    by (rule login_alice)
  have h2: "map_of ?b ''status'' = Some (JNum 200)" by simp
  have h3: "fst (updateProfile_route strict_sign (Some ''k'') True ''alice'' ''Alicia'' ''Lee'' ''Addr2'' demo_db)
     = Responded (JObj ?b')"
    by (rule update_alice)
  have h4: "map_of ?b' ''status'' = Some (JNum 200)" by simp
  have h5: "hashed_password alice \<noteq> role alice \<and> hashed_password alice \<noteq> username alice
        \<and> hashed_password alice \<noteq> fname alice \<and> hashed_password alice \<noteq> lname alice
        \<and> hashed_password alice \<noteq> email alice \<and> hashed_password alice \<noteq> address alice"
    by (simp add: alice_def)
  note T = success_replies_sanitized
    [where sign = strict_sign and comparePasswords = demo_compare and secret = "Some ''k''"
       and valid = True and uname = "''alice''" and password = "''secret1''" and s = demo_db
       and body = ?b and valid' = True and uname' = "''alice''" and firstname = "''Alicia''"
       and lastname = "''Lee''" and addr = "''Addr2''" and s' = demo_db and body' = ?b'
       and v = alice and h = "''h:changed''"]
  note T2 = conjunct2 [OF T]
  note T3 = conjunct2 [OF T2]
  note T4 = conjunct2 [OF T3]
  note T5 = conjunct2 [OF T4]
  note T6 = conjunct2 [OF T5]
  have e1: "\<exists>i u t. find_row ''alice'' (rows demo_db) = Some (i, u)
         \<and> strict_sign [(''role'', JStr (role u)), (''username'', JStr (username u)),
                  (''fname'', JStr (fname u)), (''lname'', JStr (lname u)),
                  (''email'', JStr (email u)), (''address'', JStr (address u))] (Some ''k'') = Inr t
         \<and> ?b = [(''status'', JNum 200), (''token'', JStr t),
               (''user'', JObj [(''role'', JStr (role u)), (''username'', JStr (username u)),
                                (''fname'', JStr (fname u)), (''lname'', JStr (lname u)),
                                (''email'', JStr (email u)), (''address'', JStr (address u))])]"
    by (rule mp [OF conjunct1 [OF T]]) (rule conjI [OF h1 h2])
  have e2: "\<exists>i u t. find_row ''alice'' (rows demo_db) = Some (i, u)
         \<and> strict_sign [(''role'', JStr (role u)), (''username'', JStr (username u)),
                  (''fname'', JStr ''Alicia''), (''lname'', JStr ''Lee''),
                  (''email'', JStr (email u)), (''address'', JStr ''Addr2'')] (Some ''k'') = Inr t
         \<and> ?b' = [(''status'', JNum 200), (''msg'', JStr ''Profile updated successfully''),
               (''token'', JStr t),
               (''userData'', JObj [(''role'', JStr (role u)), (''username'', JStr (username u)),
                                    (''fname'', JStr ''Alicia''), (''lname'', JStr ''Lee''),
                                    (''email'', JStr (email u)), (''address'', JStr ''Addr2'')])]"
    by (rule mp [OF conjunct1 [OF T2]]) (rule conjI [OF h3 h4])
  have v1: "userData alice = [(''role'', JStr (role alice)), (''username'', JStr (username alice)),
                    (''fname'', JStr (fname alice)), (''lname'', JStr (lname alice)),
                    (''email'', JStr (email alice)), (''address'', JStr (address alice))]"
    by (rule conjunct1 [OF T3])
  have v2: "userData (alice\<lparr>hashed_password := ''h:changed''\<rparr>) = userData alice"
    by (rule conjunct1 [OF T4])
  have v3: "JStr (hashed_password alice) \<notin> snd ` set (userData alice)"
    by (rule mp [OF conjunct1 [OF T5]]) (rule h5)
  have v4: "JStr ''h:secret1'' \<notin> snd ` set (userData alice)"
    using v3 by (simp add: alice_def)
  have k: "map fst (userData alice) = [''role'', ''username'', ''fname'', ''lname'', ''email'', ''address'']"
    by (rule conjunct1 [OF T6])
  have n: "''hashed_password'' \<notin> fst ` set (userData alice)"
    by (rule conjunct2 [OF T6])
  show ?thesis
    by (intro conjI) (rule h1 e1 h3 e2 v1 v2 h5 [THEN conjunct1]
        h5 [THEN conjunct2, THEN conjunct1]
        h5 [THEN conjunct2, THEN conjunct2, THEN conjunct1]
        h5 [THEN conjunct2, THEN conjunct2, THEN conjunct2, THEN conjunct1]
        h5 [THEN conjunct2, THEN conjunct2, THEN conjunct2, THEN conjunct2, THEN conjunct1]
        h5 [THEN conjunct2, THEN conjunct2, THEN conjunct2, THEN conjunct2, THEN conjunct2]
        v3 v4 k n)+
qed

text \<open>
  Claim C8. For every profile update whose username is absent from the credential store,
  every stored row is unchanged after the service and after the handler, and when the
  lookup completes the service returns \<^verbatim>\<open>false\<close> and the handler answers status 400
  with \<^verbatim>\<open>Profile update failed\<close>.
\<close>

theorem updateUserProfile_absent_user:
  assumes "uname \<notin> username ` set (rows s)"
  shows "rows (snd (updateUserProfile uname firstname lastname addr s)) = rows s
     \<and> rows (snd (updateProfile_route sign secret valid uname firstname lastname addr s)) = rows s
     \<and> (fst (next_fault s) = None \<longrightarrow>
          fst (updateUserProfile uname firstname lastname addr s) = Inr None
          \<and> fst (updateProfile_route sign secret True uname firstname lastname addr s)
              = Responded (JObj [(''status'', JNum 400), (''msg'', JStr ''Profile update failed'')]))"
proof -
  from assms have none: "find_row uname (rows s) = None" by (simp add: find_row_None)
  obtain r s1 where f: "findOne uname s = (r, s1)" by (cases "findOne uname s")
  have r1: "rows s1 = rows s" using f by (rule findOne_rows)
  have notfound: "\<And>x. r = Inr x \<Longrightarrow> x = None"
    using findOne_result [of uname s] f none by simp
  have u: "updateUserProfile uname firstname lastname addr s
           = (case r of Inl e \<Rightarrow> (Inl (Error ''Error updating profile''), s1) | Inr x \<Rightarrow> (Inr None, s1))"
  proof (cases r)
    case (Inl e)
    then show ?thesis using f by (simp add: updateUserProfile_def)
  next
    case (Inr x)
    with notfound have "x = None" by simp
    then show ?thesis using f Inr by (simp add: updateUserProfile_def)
  qed
  have a: "rows (snd (updateUserProfile uname firstname lastname addr s)) = rows s"
    using u r1 by (simp split: sum.splits)
  have b: "rows (snd (updateProfile_route sign secret valid uname firstname lastname addr s)) = rows s"
    using u r1 by (simp add: updateProfile_route_def split: sum.splits)
  have c: "fst (updateUserProfile uname firstname lastname addr s) = Inr None
          \<and> fst (updateProfile_route sign secret True uname firstname lastname addr s)
              = Responded (JObj [(''status'', JNum 400), (''msg'', JStr ''Profile update failed'')])"
    if nf: "fst (next_fault s) = None"
  proof -
    from findOne_no_fault [OF nf, of uname] f none have "r = Inr None" by simp
    with u show ?thesis by (simp add: updateProfile_route_def status_msg_def)
  qed
  show ?thesis
  proof (intro conjI impI)
    show "rows (snd (updateUserProfile uname firstname lastname addr s)) = rows s" by (rule a)
    show "rows (snd (updateProfile_route sign secret valid uname firstname lastname addr s)) = rows s"
      by (rule b)
  next
    assume nf: "fst (next_fault s) = None"
    show "fst (updateUserProfile uname firstname lastname addr s) = Inr None"
      using c [OF nf] by (rule conjunct1)
  next
    assume nf: "fst (next_fault s) = None"
    show "fst (updateProfile_route sign secret True uname firstname lastname addr s)
              = Responded (JObj [(''status'', JNum 400), (''msg'', JStr ''Profile update failed'')])"
      using c [OF nf] by (rule conjunct2)
  qed
qed

text \<open>A username that is not in the fixture table.\<close>

theorem updateUserProfile_absent_user_witness:
  "''ghost'' \<notin> username ` set (rows demo_db)
   \<and> fst (next_fault demo_db) = None
   \<and> rows (snd (updateUserProfile ''ghost'' ''G'' ''H'' ''Nowhere'' demo_db)) = rows demo_db
   \<and> rows (snd (updateProfile_route strict_sign (Some ''k'') True ''ghost'' ''G'' ''H'' ''Nowhere'' demo_db)) = rows demo_db
   \<and> fst (updateUserProfile ''ghost'' ''G'' ''H'' ''Nowhere'' demo_db) = Inr None
   \<and> fst (updateProfile_route strict_sign (Some ''k'') True ''ghost'' ''G'' ''H'' ''Nowhere'' demo_db)
        = Responded (JObj [(''status'', JNum 400), (''msg'', JStr ''Profile update failed'')])"
proof -
  have h1: "''ghost'' \<notin> username ` set (rows demo_db)"
    by (simp add: demo_db_def alice_def mallory_def)
  have h2: "fst (next_fault demo_db) = None" by (simp add: next_fault_demo)
  from updateUserProfile_absent_user
    [where uname = "''ghost''" and s = demo_db and firstname = "''G''" and lastname = "''H''"
       and addr = "''Nowhere''" and sign = strict_sign and secret = "Some ''k''" and valid = True,
     OF h1] h1 h2
  show ?thesis by blast
qed

text \<open>
  Claim C2, as stated, fails: with no \<^verbatim>\<open>SECRET_KEY\<close> in the environment the module
  loads, binding \<^verbatim>\<open>secretKey\<close> to undefined, and a login with the right password is
  served up to the call of the signer with that value; with a signer that refuses a missing
  secret the answer is status 500.
\<close>

theorem missing_secret_counterexample:
  "load_routes Map.empty = Inr \<lparr>secretKey = None\<rparr>
   \<and> fst (login_route strict_sign demo_compare None True ''alice'' ''secret1'' demo_db)
       = Responded (JObj [(''status'', JNum 500), (''error'', JStr ''Internal server error'')])"
  by (simp add: load_routes_def login_route_def loginUser_def findOne_def next_fault_demo
      find_row_demo_alice demo_compare_def strict_sign_def alice_def status_error_def)

text \<open>
  Claim C2 (amended). Loading the module never fails: \<^verbatim>\<open>secretKey\<close> is whatever the
  environment holds for \<^verbatim>\<open>SECRET_KEY\<close>, also when it is absent. Login and profile
  update hand that value to the signer unchecked: a login of a user with a known role
  answers status 200 with the signer's token when the signer returns one and status 500
  when it throws, and a profile update answers status 200 with the signer's token when the
  signer returns one.
\<close>

theorem secret_passed_unchecked:
  "load_routes env = Inr \<lparr>secretKey = env ''SECRET_KEY''\<rparr>
   \<and> (load_routes env = Inr m \<and> fst (loginUser comparePasswords uname password s) = Inr (Some (i, u))
        \<and> (role u = ''admin'' \<or> role u = ''user'') \<longrightarrow>
        fst (login_route sign comparePasswords (secretKey m) True uname password s)
          = (case sign (userData u) (env ''SECRET_KEY'') of
               Inl e \<Rightarrow> Responded (JObj [(''status'', JNum 500), (''error'', JStr ''Internal server error'')])
             | Inr t \<Rightarrow> Responded (JObj [(''status'', JNum 200), (''token'', JStr t),
                                          (''user'', JObj (userData u))])))
   \<and> (load_routes env = Inr m \<and> fst (updateUserProfile uname' firstname lastname addr s') = Inr (Some (i', u'))
        \<and> sign (userData u') (env ''SECRET_KEY'') = Inr t' \<longrightarrow>
        fst (updateProfile_route sign (secretKey m) True uname' firstname lastname addr s')
          = Responded (JObj [(''status'', JNum 200), (''msg'', JStr ''Profile updated successfully''),
                             (''token'', JStr t'), (''userData'', JObj (userData u'))]))"
proof -
  have a: "load_routes env = Inr \<lparr>secretKey = env ''SECRET_KEY''\<rparr>"
    by (simp add: load_routes_def)
  have b: "fst (login_route sign comparePasswords (secretKey m) True uname password s)
          = (case sign (userData u) (env ''SECRET_KEY'') of
               Inl e \<Rightarrow> Responded (JObj [(''status'', JNum 500), (''error'', JStr ''Internal server error'')])
             | Inr t \<Rightarrow> Responded (JObj [(''status'', JNum 200), (''token'', JStr t),
                                          (''user'', JObj (userData u))]))"
    if L: "load_routes env = Inr m" and R: "fst (loginUser comparePasswords uname password s) = Inr (Some (i, u))"
      and V: "role u = ''admin'' \<or> role u = ''user''"
  proof -
    from L have k: "secretKey m = env ''SECRET_KEY''" by (auto simp: load_routes_def)
    obtain s1 where "loginUser comparePasswords uname password s = (Inr (Some (i, u)), s1)"
      using R by (cases "loginUser comparePasswords uname password s") simp
    then show ?thesis using V k
      by (auto simp: login_route_def status_error_def split: sum.splits)
  qed
  have c: "fst (updateProfile_route sign (secretKey m) True uname' firstname lastname addr s')
          = Responded (JObj [(''status'', JNum 200), (''msg'', JStr ''Profile updated successfully''),
                             (''token'', JStr t'), (''userData'', JObj (userData u'))])"
    if L: "load_routes env = Inr m" and R: "fst (updateUserProfile uname' firstname lastname addr s') = Inr (Some (i', u'))"
      and T: "sign (userData u') (env ''SECRET_KEY'') = Inr t'"
  proof -
    from L have k: "secretKey m = env ''SECRET_KEY''" by (auto simp: load_routes_def)
    obtain s1 where "updateUserProfile uname' firstname lastname addr s' = (Inr (Some (i', u')), s1)"
      using R by (cases "updateUserProfile uname' firstname lastname addr s'") simp
    then show ?thesis using T k
      by (simp add: updateProfile_route_def)
  qed
  from a b c show ?thesis by blast
qed

lemma loginUser_alice:
  "fst (loginUser demo_compare ''alice'' ''secret1'' demo_db) = Inr (Some (0, alice))"
  by (simp add: loginUser_def findOne_def next_fault_demo find_row_demo_alice demo_compare_def alice_def)

lemma updateUserProfile_alice:
  "fst (updateUserProfile ''alice'' ''Alicia'' ''Lee'' ''Addr2'' demo_db)
     = Inr (Some (0, alice\<lparr>fname := ''Alicia'', lname := ''Lee'', address := ''Addr2''\<rparr>))"
  by (simp add: updateUserProfile_def findOne_def save_def next_fault_demo find_row_demo_alice)

text \<open>
  A login under an empty environment, and a profile update under one that holds the
  secret.
\<close>

theorem secret_passed_unchecked_witness:
  "load_routes Map.empty = Inr \<lparr>secretKey = None\<rparr>
   \<and> fst (loginUser demo_compare ''alice'' ''secret1'' demo_db) = Inr (Some (0, alice))
   \<and> (role alice = ''admin'' \<or> role alice = ''user'')
   \<and> fst (login_route strict_sign demo_compare (secretKey \<lparr>secretKey = None\<rparr>) True ''alice'' ''secret1'' demo_db)
       = Responded (JObj [(''status'', JNum 500), (''error'', JStr ''Internal server error'')])
   \<and> load_routes [''SECRET_KEY'' \<mapsto> ''k''] = Inr \<lparr>secretKey = Some ''k''\<rparr>
   \<and> fst (updateUserProfile ''alice'' ''Alicia'' ''Lee'' ''Addr2'' demo_db)
       = Inr (Some (0, alice\<lparr>fname := ''Alicia'', lname := ''Lee'', address := ''Addr2''\<rparr>))
   \<and> strict_sign (userData (alice\<lparr>fname := ''Alicia'', lname := ''Lee'', address := ''Addr2''\<rparr>))
        ([''SECRET_KEY'' \<mapsto> ''k''] ''SECRET_KEY'') = Inr ''signed:k''
   \<and> fst (updateProfile_route strict_sign (secretKey \<lparr>secretKey = Some ''k''\<rparr>) True
             ''alice'' ''Alicia'' ''Lee'' ''Addr2'' demo_db)
       = Responded (JObj [(''status'', JNum 200), (''msg'', JStr ''Profile updated successfully''),
           (''token'', JStr ''signed:k''),
           (''userData'', JObj (userData (alice\<lparr>fname := ''Alicia'', lname := ''Lee'', address := ''Addr2''\<rparr>)))])"
proof -
  let ?e = "Map.empty :: string \<rightharpoonup> string"
  let ?k = "[''SECRET_KEY'' \<mapsto> ''k'']"
  let ?a' = "alice\<lparr>fname := ''Alicia'', lname := ''Lee'', address := ''Addr2''\<rparr>"
  have h1: "load_routes ?e = Inr \<lparr>secretKey = None\<rparr>" by (simp add: load_routes_def)
  have h2: "fst (loginUser demo_compare ''alice'' ''secret1'' demo_db) = Inr (Some (0, alice))"
    by (rule loginUser_alice)
  have h3: "role alice = ''admin'' \<or> role alice = ''user''" by (simp add: alice_def)
  have h4: "load_routes ?k = Inr \<lparr>secretKey = Some ''k''\<rparr>" by (simp add: load_routes_def)
  have h5: "fst (updateUserProfile ''alice'' ''Alicia'' ''Lee'' ''Addr2'' demo_db) = Inr (Some (0, ?a'))"
    by (rule updateUserProfile_alice)
  have h6: "strict_sign (userData ?a') (?k ''SECRET_KEY'') = Inr ''signed:k''"
    by (simp add: strict_sign_def)
  have s1: "strict_sign (userData alice) (?e ''SECRET_KEY'') = Inl (Error ''secretOrPrivateKey must have a value'')"
    by (simp add: strict_sign_def)
  from secret_passed_unchecked
    [where env = ?e and m = "\<lparr>secretKey = None\<rparr>" and comparePasswords = demo_compare
       and uname = "''alice''" and password = "''secret1''" and s = demo_db and i = 0 and u = alice
       and sign = strict_sign]
    h1 h2 h3 s1
  have c1: "fst (login_route strict_sign demo_compare (secretKey \<lparr>secretKey = None\<rparr>) True ''alice'' ''secret1'' demo_db)
       = Responded (JObj [(''status'', JNum 500), (''error'', JStr ''Internal server error'')])"
    by simp
  from secret_passed_unchecked
    [where env = ?k and m = "\<lparr>secretKey = Some ''k''\<rparr>" and uname' = "''alice''"
       and firstname = "''Alicia''" and lastname = "''Lee''" and addr = "''Addr2''" and s' = demo_db
       and i' = 0 and u' = ?a' and sign = strict_sign and t' = "''signed:k''"]
    h4 h5 h6
  have c2: "fst (updateProfile_route strict_sign (secretKey \<lparr>secretKey = Some ''k''\<rparr>) True
             ''alice'' ''Alicia'' ''Lee'' ''Addr2'' demo_db)
       = Responded (JObj [(''status'', JNum 200), (''msg'', JStr ''Profile updated successfully''),
           (''token'', JStr ''signed:k''), (''userData'', JObj (userData ?a'))])"
    by blast
  from h1 h2 h3 c1 h4 h5 h6 c2 show ?thesis by blast
qed

end
